theory Spec2Isabelle
  imports Complex_Main "HOL-Library.Word"
begin

section \<open>Python values, strings and bytes\<close>

text \<open>
  A Python \<open>str\<close> is a sequence of Unicode code points, a \<open>bytes\<close> object a sequence
  of octets. The program passes strings, \<open>None\<close> and one integer (the salt length), so
  these are the values of the model.
\<close>

type_synonym str = "nat list"
type_synonym bytes = "8 word list"

datatype pyval = PNone | PInt int | PStr str

datatype py_error =
  TypeError | AttributeError | ValueError | KeyError | UnicodeEncodeError | ZeroDivisionError
  | OverflowError | MemoryError

text \<open>A string literal of the source, as its code points.\<close>

definition py :: "string \<Rightarrow> str" where
  "py cs = map of_char cs"

text \<open>Truth value testing, as \<open>if salt:\<close> performs it.\<close>

fun truthy :: "pyval \<Rightarrow> bool" where
  "truthy PNone = False"
| "truthy (PInt i) = (i \<noteq> 0)"
| "truthy (PStr s) = (s \<noteq> [])"

text \<open>The binary \<open>+\<close> of \<open>password + salt\<close>.\<close>

fun py_add :: "pyval \<Rightarrow> pyval \<Rightarrow> py_error + pyval" where
  "py_add (PStr a) (PStr b) = Inr (PStr (a @ b))"
| "py_add (PInt a) (PInt b) = Inr (PInt (a + b))"
| "py_add _ _ = Inl TypeError"

text \<open>
  \<open>str.encode('utf-8')\<close> with the default strict error handler: a surrogate code point
  raises \<open>UnicodeEncodeError\<close>. A code point above \<open>0x10FFFF\<close> cannot occur in a
  Python string; the model refuses it too.
\<close>

definition utf8_char :: "nat \<Rightarrow> bytes option" where
  "utf8_char c =
    (if c < 0x80 then Some [of_nat c]
     else if c < 0x800 then
       Some [of_nat (0xC0 + c div 0x40), of_nat (0x80 + c mod 0x40)]
     else if 0xD800 \<le> c \<and> c < 0xE000 then None
     else if c < 0x10000 then
       Some [of_nat (0xE0 + c div 0x1000), of_nat (0x80 + c div 0x40 mod 0x40),
             of_nat (0x80 + c mod 0x40)]
     else if c < 0x110000 then
       Some [of_nat (0xF0 + c div 0x40000), of_nat (0x80 + c div 0x1000 mod 0x40),
             of_nat (0x80 + c div 0x40 mod 0x40), of_nat (0x80 + c mod 0x40)]
     else None)"

fun utf8_encode :: "str \<Rightarrow> py_error + bytes" where
  "utf8_encode [] = Inr []"
| "utf8_encode (c # cs) =
    (case utf8_char c of
       None \<Rightarrow> Inl UnicodeEncodeError
     | Some bs \<Rightarrow>
        (case utf8_encode cs of
           Inl e \<Rightarrow> Inl e
         | Inr rest \<Rightarrow> Inr (bs @ rest)))"

text \<open>The method call \<open>x.encode('utf-8')\<close>: only a string has the method.\<close>

fun encode :: "pyval \<Rightarrow> py_error + bytes" where
  "encode (PStr s) = utf8_encode s"
| "encode _ = Inl AttributeError"

section \<open>Library interfaces\<close>

text \<open>
  The digest functions of \<open>hashlib\<close> are library code outside the repository. They are
  a parameter of the model. What the model keeps of them is the size of each digest:
  256 bits for SHA-256, 512 bits for SHA-512, SHA3-512 and BLAKE2b (with its default
  digest size). A field stands for \<open>hashlib.f(data).digest()\<close> read as one big-endian
  number.
\<close>

record hashlib =
  sha256 :: "bytes \<Rightarrow> 256 word"
  sha512 :: "bytes \<Rightarrow> 512 word"
  sha3_512 :: "bytes \<Rightarrow> 512 word"
  blake2b :: "bytes \<Rightarrow> 512 word"

text \<open>
  \<open>hexdigest()\<close> renders the digest in lower-case hexadecimal, most significant digit
  first: one character for every four bits.
\<close>

definition hex_digit :: "nat \<Rightarrow> nat" where
  "hex_digit d = (if d < 10 then 48 + d else 87 + d)"

definition hexdigest :: "'a::len word \<Rightarrow> str" where
  "hexdigest w =
    map (\<lambda>i. hex_digit (unat w div 16 ^ i mod 16)) (rev [0..<LENGTH('a) div 4])"

section \<open>The application object\<close>

text \<open>
  An entry of \<open>self.user_database\<close> is a dictionary with the three keys
  \<open>'hash'\<close>, \<open>'salt'\<close> and \<open>'algo'\<close>.
\<close>

record credential =
  cred_hash :: str
  cred_salt :: pyval
  cred_algo :: pyval

record SLRCryptoApp =
  algorithms :: "(str \<times> (bytes \<Rightarrow> str)) list"
  user_database :: "str \<rightharpoonup> credential"

text \<open>\<open>__init__\<close>: the registry of four digest functions and an empty user database.\<close>

definition init :: "hashlib \<Rightarrow> SLRCryptoApp" where
  "init H =
    \<lparr>algorithms =
       [(py ''SHA-256'', \<lambda>data. hexdigest (sha256 H data)),
        (py ''SHA-512'', \<lambda>data. hexdigest (sha512 H data)),
        (py ''SHA-3-512'', \<lambda>data. hexdigest (sha3_512 H data)),
        (py ''Blake2b'', \<lambda>data. hexdigest (blake2b H data))],
     user_database = Map.empty\<rparr>"

section \<open>hash_password\<close>

text \<open>
  \<open>hash_password(self, password, algo_type='sha3', salt=None)\<close>. The first block
  builds the bytes to hash: \<open>(password + salt).encode('utf-8')\<close> when \<open>salt\<close> is
  truthy, \<open>password.encode('utf-8')\<close> otherwise. The second block selects the digest
  by comparing \<open>algo_type\<close> with \<open>'blake2'\<close> and \<open>'sha3'\<close>; every other value takes
  the \<open>else\<close> branch, SHA-256.
\<close>

definition hash_password ::
  "hashlib \<Rightarrow> SLRCryptoApp \<Rightarrow> pyval \<Rightarrow> pyval \<Rightarrow> pyval \<Rightarrow> py_error + str" where
  "hash_password H self password algo_type salt =
    (case (if truthy salt
           then (case py_add password salt of
                   Inl e \<Rightarrow> Inl e
                 | Inr joined \<Rightarrow> encode joined)
           else encode password) of
       Inl e \<Rightarrow> Inl e
     | Inr data \<Rightarrow>
        if algo_type = PStr (py ''blake2'') then Inr (hexdigest (blake2b H data))
        else if algo_type = PStr (py ''sha3'') then Inr (hexdigest (sha3_512 H data))
        else Inr (hexdigest (sha256 H data)))"

section \<open>Calling a method\<close>

text \<open>
  Python binds the arguments of a call to the parameters of the function: positional
  arguments fill the parameters in order, a keyword argument must name a parameter that
  is still unbound, and a parameter left unbound takes its default. Too many positional
  arguments, a keyword that names no parameter, a second value for a parameter and a
  missing argument without default each raise \<open>TypeError\<close>. A parameter is its name
  and its default, if it has one; the result lists the values in parameter order.
\<close>

type_synonym kwargs = "(string \<times> pyval) list"

fun cons_result :: "pyval \<Rightarrow> py_error + pyval list \<Rightarrow> py_error + pyval list" where
  "cons_result v (Inl e) = Inl e"
| "cons_result v (Inr vs) = Inr (v # vs)"

fun bind_args ::
  "(string \<times> pyval option) list \<Rightarrow> pyval list \<Rightarrow> kwargs \<Rightarrow> py_error + pyval list" where
  "bind_args [] [] kw = (if kw = [] then Inr [] else Inl TypeError)"
| "bind_args [] (a # args) kw = Inl TypeError"
| "bind_args ((name, dflt) # params) (a # args) kw =
    (if map_of kw name \<noteq> None then Inl TypeError
     else cons_result a (bind_args params args kw))"
| "bind_args ((name, dflt) # params) [] kw =
    (case map_of kw name of
       Some v \<Rightarrow> cons_result v (bind_args params [] (filter (\<lambda>(k, _). k \<noteq> name) kw))
     | None \<Rightarrow>
        (case dflt of
           Some v \<Rightarrow> cons_result v (bind_args params [] kw)
         | None \<Rightarrow> Inl TypeError))"

text \<open>
  A call \<open>self.hash_password(...)\<close> with the given positional and keyword arguments,
  against the signature \<open>(password, algo_type='sha3', salt=None)\<close>.
\<close>

definition hash_password_params :: "(string \<times> pyval option) list" where
  "hash_password_params =
    [(''password'', None), (''algo_type'', Some (PStr (py ''sha3''))), (''salt'', Some PNone)]"

definition call_hash_password ::
  "hashlib \<Rightarrow> SLRCryptoApp \<Rightarrow> pyval list \<Rightarrow> kwargs \<Rightarrow> py_error + str" where
  "call_hash_password H self args kw =
    (case bind_args hash_password_params args kw of
       Inl e \<Rightarrow> Inl e
     | Inr [password, algo_type, salt] \<Rightarrow> hash_password H self password algo_type salt
     | Inr _ \<Rightarrow> Inl TypeError)"

section \<open>generate_salt\<close>

text \<open>
  The interpreter's size type, on a 64-bit build, holds the integers from \<open>-2^63\<close> to
  \<open>2^63 - 1\<close>.
\<close>

definition PY_SSIZE_T_MAX :: int where
  "PY_SSIZE_T_MAX = 2 ^ 63 - 1"

text \<open>
  The operating system's random source is an unbounded supply of octets; reading \<open>n\<close>
  of them returns the first \<open>n\<close> and leaves the rest. \<open>os.urandom(size)\<close> takes an
  integer: one outside the size type raises \<open>OverflowError\<close>, a negative one
  \<open>ValueError\<close>, and one within 33 of the largest size \<open>OverflowError\<close> again, since
  the header of the byte string no longer fits. A size that is no integer raises
  \<open>TypeError\<close>. Memory itself is not modelled: an allocation within these limits
  succeeds, where a machine short of memory raises \<open>MemoryError\<close>.
\<close>

type_synonym entropy = "nat \<Rightarrow> 8 word"

definition urandom :: "entropy \<Rightarrow> pyval \<Rightarrow> (py_error + bytes) \<times> entropy" where
  "urandom rng size' =
    (case size' of
       PInt n \<Rightarrow>
        if n < - PY_SSIZE_T_MAX - 1 \<or> PY_SSIZE_T_MAX < n then (Inl OverflowError, rng)
        else if n < 0 then (Inl ValueError, rng)
        else if PY_SSIZE_T_MAX - 33 < n then (Inl OverflowError, rng)
        else (Inr (map rng [0..<nat n]), \<lambda>i. rng (nat n + i))
     | PNone \<Rightarrow> (Inl TypeError, rng)
     | PStr s \<Rightarrow> (Inl TypeError, rng))"

text \<open>Lower-case hexadecimal rendering of bytes, two digits for each octet.\<close>

definition hexlify :: "bytes \<Rightarrow> str" where
  "hexlify bs = concat (map (\<lambda>b. [hex_digit (unat b div 16), hex_digit (unat b mod 16)]) bs)"

text \<open>
  \<open>binascii.hexlify(data).decode('ascii')\<close>: the rendering has twice the length of the
  data, and the library refuses with \<open>MemoryError\<close> data of half the largest size or
  more, whose rendering would not fit the size type.
\<close>

definition binascii_hexlify :: "bytes \<Rightarrow> py_error + str" where
  "binascii_hexlify bs =
    (if PY_SSIZE_T_MAX div 2 \<le> int (length bs) then Inl MemoryError
     else Inr (hexlify bs))"

text \<open>
  \<open>secrets.token_bytes(nbytes)\<close> reads \<open>nbytes\<close> random octets, 32 of them when
  \<open>nbytes\<close> is \<open>None\<close>; \<open>secrets.token_hex(nbytes)\<close> renders them in hexadecimal.
\<close>

definition token_bytes :: "entropy \<Rightarrow> pyval \<Rightarrow> (py_error + bytes) \<times> entropy" where
  "token_bytes rng nbytes = urandom rng (if nbytes = PNone then PInt 32 else nbytes)"

definition token_hex :: "entropy \<Rightarrow> pyval \<Rightarrow> (py_error + str) \<times> entropy" where
  "token_hex rng nbytes =
    (case token_bytes rng nbytes of
       (Inl e, rng') \<Rightarrow> (Inl e, rng')
     | (Inr bs, rng') \<Rightarrow>
        (case binascii_hexlify bs of
           Inl e \<Rightarrow> (Inl e, rng')
         | Inr s \<Rightarrow> (Inr s, rng')))"

text \<open>\<open>generate_salt(self, length=16)\<close> returns \<open>secrets.token_hex(length)\<close>.\<close>

definition generate_salt ::
  "entropy \<Rightarrow> SLRCryptoApp \<Rightarrow> pyval \<Rightarrow> (py_error + str) \<times> entropy" where
  "generate_salt rng self length' = token_hex rng length'"

definition generate_salt_params :: "(string \<times> pyval option) list" where
  "generate_salt_params = [(''length'', Some (PInt 16))]"

definition call_generate_salt ::
  "entropy \<Rightarrow> SLRCryptoApp \<Rightarrow> pyval list \<Rightarrow> kwargs \<Rightarrow> (py_error + str) \<times> entropy" where
  "call_generate_salt rng self args kw =
    (case bind_args generate_salt_params args kw of
       Inl e \<Rightarrow> (Inl e, rng)
     | Inr [length'] \<Rightarrow> generate_salt rng self length'
     | Inr _ \<Rightarrow> (Inl TypeError, rng))"

section \<open>demonstrate_avalanche_effect\<close>

text \<open>
  \<open>demonstrate_avalanche_effect(self, text1, text2)\<close> hashes both texts with SHA3-512,
  counts the positions of \<open>zip(hash1, hash2)\<close> whose characters differ and divides by
  \<open>len(hash1)\<close>. The function prints what it computes; the model returns the two
  digests and the percentage. Python computes \<open>(diff_count / total_chars) * 100\<close> in
  binary floating point. A SHA3-512 digest has 128 characters, so the quotient is a
  multiple of \<open>1/128\<close> and the product a multiple of \<open>1/32\<close> no larger than 100: both
  are representable and the floating-point operations return them unrounded. The model
  computes the same values as rationals.
\<close>

definition demonstrate_avalanche_effect ::
  "hashlib \<Rightarrow> SLRCryptoApp \<Rightarrow> pyval \<Rightarrow> pyval \<Rightarrow> py_error + (str \<times> str \<times> rat)" where
  "demonstrate_avalanche_effect H self text1 text2 =
    (case encode text1 of
       Inl e \<Rightarrow> Inl e
     | Inr data1 \<Rightarrow>
        (case encode text2 of
           Inl e \<Rightarrow> Inl e
         | Inr data2 \<Rightarrow>
            (let hash1 = hexdigest (sha3_512 H data1);
                 hash2 = hexdigest (sha3_512 H data2);
                 diff_count = length (filter (\<lambda>(a, b). a \<noteq> b) (zip hash1 hash2));
                 total_chars = length hash1
             in if total_chars = 0 then Inl ZeroDivisionError
                else Inr (hash1, hash2, (of_nat diff_count / of_nat total_chars) * 100))))"

section \<open>simulate_rainbow_table_attack\<close>

text \<open>What the function prints, line by line, without the wording.\<close>

datatype out =
  Header | TargetLemah | CrackedLemah str | GagalLemah
  | TargetAman | CrackedAman str | GagalAman

text \<open>
  Enrolment of the two users (the two assignments to \<open>self.user_database\<close>). Each
  right-hand side is evaluated before the entry is stored, so an exception leaves the
  database as it was before that assignment.
\<close>

definition enroll_users ::
  "hashlib \<Rightarrow> entropy \<Rightarrow> SLRCryptoApp \<Rightarrow> (py_error + unit) \<times> SLRCryptoApp \<times> entropy" where
  "enroll_users H rng self =
    (case call_hash_password H self
            [PStr (py ''123456''), PStr (py ''sha256''), PNone] [] of
       Inl e \<Rightarrow> (Inl e, self, rng)
     | Inr hash1 \<Rightarrow>
        (let self1 = self\<lparr>user_database := (user_database self)
                       (py ''user_lemah'' \<mapsto>
                          \<lparr>cred_hash = hash1, cred_salt = PNone,
                           cred_algo = PStr (py ''sha256'')\<rparr>)\<rparr>
         in case call_generate_salt rng self1 [] [] of
              (Inl e, rng1) \<Rightarrow> (Inl e, self1, rng1)
            | (Inr salt, rng1) \<Rightarrow>
               (case call_hash_password H self1
                       [PStr (py ''123456''), PStr (py ''sha3''), PStr salt] [] of
                  Inl e \<Rightarrow> (Inl e, self1, rng1)
                | Inr hash2 \<Rightarrow>
                   (Inr (),
                    self1\<lparr>user_database := (user_database self1)
                       (py ''user_aman'' \<mapsto>
                          \<lparr>cred_hash = hash2, cred_salt = PStr salt,
                           cred_algo = PStr (py ''sha3'')\<rparr>)\<rparr>,
                    rng1))))"

definition common_passwords :: "str list" where
  "common_passwords = [py ''123456'', py ''password'', py ''admin'', py ''rahasia'']"

text \<open>
  The two attack loops over the dictionary. Each iteration calls
  \<open>self.hash_password(pwd, algo=..., salt=...)\<close>, with the keyword \<open>algo\<close> as the
  source writes it, and compares the result with the stored hash. The result is the
  password at which the loop breaks, or \<open>None\<close> when the loop ends with \<open>found\<close>
  still false.
\<close>

fun attack_user_lemah :: "hashlib \<Rightarrow> SLRCryptoApp \<Rightarrow> str list \<Rightarrow> py_error + str option" where
  "attack_user_lemah H self [] = Inr None"
| "attack_user_lemah H self (pwd # rest) =
    (case call_hash_password H self [PStr pwd]
            [(''algo'', PStr (py ''sha256'')), (''salt'', PNone)] of
       Inl e \<Rightarrow> Inl e
     | Inr calc_hash \<Rightarrow>
        (case user_database self (py ''user_lemah'') of
           None \<Rightarrow> Inl KeyError
         | Some entry \<Rightarrow>
            if calc_hash = cred_hash entry then Inr (Some pwd)
            else attack_user_lemah H self rest))"

fun attack_user_aman :: "hashlib \<Rightarrow> SLRCryptoApp \<Rightarrow> str list \<Rightarrow> py_error + str option" where
  "attack_user_aman H self [] = Inr None"
| "attack_user_aman H self (pwd # rest) =
    (case user_database self (py ''user_aman'') of
       None \<Rightarrow> Inl KeyError
     | Some entry \<Rightarrow>
        (case call_hash_password H self [PStr pwd]
                [(''algo'', PStr (py ''sha3'')), (''salt'', cred_salt entry)] of
           Inl e \<Rightarrow> Inl e
         | Inr calc_hash \<Rightarrow>
            if calc_hash = cred_hash entry then Inr (Some pwd)
            else attack_user_aman H self rest))"

text \<open>
  The whole function. The result is what it raises or returns, the object and the
  random source as it leaves them, and the lines printed so far.
\<close>

definition simulate_rainbow_table_attack ::
  "hashlib \<Rightarrow> entropy \<Rightarrow> SLRCryptoApp \<Rightarrow>
   (py_error + unit) \<times> SLRCryptoApp \<times> entropy \<times> out list" where
  "simulate_rainbow_table_attack H rng self =
    (case enroll_users H rng self of
       (Inl e, self', rng') \<Rightarrow> (Inl e, self', rng', [Header])
     | (Inr _, self', rng') \<Rightarrow>
        (case attack_user_lemah H self' common_passwords of
           Inl e \<Rightarrow> (Inl e, self', rng', [Header, TargetLemah])
         | Inr found1 \<Rightarrow>
            (let line1 = (case found1 of Some pwd \<Rightarrow> CrackedLemah pwd | None \<Rightarrow> GagalLemah)
             in case attack_user_aman H self' common_passwords of
                  Inl e \<Rightarrow> (Inl e, self', rng', [Header, TargetLemah, line1, TargetAman])
                | Inr found2 \<Rightarrow>
                   (Inr (), self', rng',
                    [Header, TargetLemah, line1, TargetAman,
                     (case found2 of Some pwd \<Rightarrow> CrackedAman pwd | None \<Rightarrow> GagalAman)]))))"

section \<open>An instance of the digest interface\<close>

text \<open>
  The theorems below hold for every value of the \<open>hashlib\<close> parameter. To state one
  of them at a concrete input the parameter needs a value: here each digest is the
  input read as a big-endian number, cut to the digest size. It is no cryptographic
  hash, and no proof looks into it.
\<close>

definition bytes_value :: "bytes \<Rightarrow> nat" where
  "bytes_value bs = foldl (\<lambda>a b. 256 * a + unat b) 0 bs"

definition sample_hashlib :: hashlib where
  "sample_hashlib =
    \<lparr>sha256 = \<lambda>data. of_nat (bytes_value data),
     sha512 = \<lambda>data. of_nat (bytes_value data),
     sha3_512 = \<lambda>data. of_nat (bytes_value data),
     blake2b = \<lambda>data. of_nat (bytes_value data)\<rparr>"

section \<open>Encoding and rendering\<close>

lemma utf8_encode_append:
  "utf8_encode (p @ s) =
    (case utf8_encode p of
       Inl e \<Rightarrow> Inl e
     | Inr pb \<Rightarrow> (case utf8_encode s of Inl e \<Rightarrow> Inl e | Inr sb \<Rightarrow> Inr (pb @ sb)))"
  by (induction p) (auto split: option.splits sum.splits)

lemma utf8_encode_ascii:
  "\<forall>c \<in> set s. c < 128 \<Longrightarrow> utf8_encode s = Inr (map of_nat s)"
  by (induction s) (auto simp: utf8_char_def)

lemma hex_digit_ascii: "d < 16 \<Longrightarrow> hex_digit d < 128"
  by (simp add: hex_digit_def)

lemma byte_high_nibble: "unat (b :: 8 word) div 16 < 16"
proof -
  have "unat b < 256" using unsigned_less [of b] by simp
  then show ?thesis by simp
qed

lemma hexlify_ascii: "\<forall>c \<in> set (hexlify bs). c < 128"
  using byte_high_nibble by (auto simp: hexlify_def intro!: hex_digit_ascii)

lemma length_hexlify: "length (hexlify bs) = 2 * length bs"
  by (induction bs) (simp_all add: hexlify_def)

lemma length_hexdigest: "length (hexdigest (w :: 'a::len word)) = LENGTH('a) div 4"
  by (simp add: hexdigest_def)

lemma enc_123456: "utf8_encode (py ''123456'') = Inr [0x31, 0x32, 0x33, 0x34, 0x35, 0x36]"
  by (simp add: py_def utf8_char_def)

lemma enc_ab: "utf8_encode (py ''ab'') = Inr [0x61, 0x62]"
  by (simp add: py_def utf8_char_def)

text \<open>
  The first block of \<open>hash_password\<close> on a string password and a string salt: the
  bytes of the password followed by the bytes of the salt, also when the salt is empty.
\<close>

lemma salted_data:
  assumes "utf8_encode p = Inr pb" and "utf8_encode s = Inr sb"
  shows "(if truthy (PStr s)
          then (case py_add (PStr p) (PStr s) of
                  Inl e \<Rightarrow> Inl e
                | Inr joined \<Rightarrow> encode joined)
          else encode (PStr p)) = Inr (pb @ sb)"
  using assms by (cases s) (simp_all add: utf8_encode_append)

lemma algo_ids:
  "py ''sha3'' \<noteq> py ''blake2''" "py ''sha256'' \<noteq> py ''blake2''"
  "py ''sha256'' \<noteq> py ''sha3''"
  by (simp_all add: py_def)

section \<open>Calls the program makes\<close>

lemma call_hash_password_positional:
  "call_hash_password H self [password, algo_type, salt] [] =
   hash_password H self password algo_type salt"
  by (simp add: call_hash_password_def hash_password_params_def)

text \<open>
  \<open>hash_password\<close> has no parameter \<open>algo\<close>: after \<open>password\<close>, \<open>algo_type\<close> (by
  default) and \<open>salt\<close> are bound, the keyword \<open>algo\<close> is left over.
\<close>

lemma call_hash_password_algo_keyword:
  "call_hash_password H self [password] [(''algo'', a), (''salt'', s)] = Inl TypeError"
  by (simp add: call_hash_password_def hash_password_params_def)

lemma call_generate_salt_default:
  "call_generate_salt rng self [] [] = generate_salt rng self (PInt 16)"
  by (simp add: call_generate_salt_def generate_salt_params_def)

lemma generate_salt_nonneg:
  "0 \<le> n \<Longrightarrow> n \<le> 2 ^ 62 - 2 \<Longrightarrow> generate_salt rng self (PInt n) =
     (Inr (hexlify (map rng [0..<nat n])), \<lambda>i. rng (nat n + i))"
  by (simp add: generate_salt_def token_hex_def token_bytes_def urandom_def
      binascii_hexlify_def PY_SSIZE_T_MAX_def)

lemma generate_salt_returned:
  "generate_salt rng self (PInt m) = (Inr s, rng') \<Longrightarrow>
     0 \<le> m \<and> s = hexlify (map rng [0..<nat m])"
  by (auto simp: generate_salt_def token_hex_def token_bytes_def urandom_def
      binascii_hexlify_def split: if_splits)

lemma hex_digit_chars: "d < 16 \<Longrightarrow> hex_digit d \<in> set (py ''0123456789abcdef'')"
  by (simp add: hex_digit_def py_def) arith

lemma hexlify_chars: "set (hexlify bs) \<subseteq> set (py ''0123456789abcdef'')"
proof -
  have "hex_digit (unat b div 16) \<in> set (py ''0123456789abcdef'')" for b :: "8 word"
    using byte_high_nibble by (rule hex_digit_chars)
  moreover have "hex_digit (unat b mod 16) \<in> set (py ''0123456789abcdef'')" for b :: "8 word"
    by (rule hex_digit_chars) simp
  ultimately show ?thesis
    unfolding hexlify_def by auto
qed

lemma attack_user_lemah_raises:
  "attack_user_lemah H self (pwd # rest) = Inl TypeError"
  by (simp add: call_hash_password_algo_keyword)

lemma attack_user_aman_raises:
  "attack_user_aman H self (pwd # rest) =
     (case user_database self (py ''user_aman'') of
        None \<Rightarrow> Inl KeyError
      | Some entry \<Rightarrow> Inl TypeError)"
  by (simp add: call_hash_password_algo_keyword split: option.splits)

lemma attack_user_lemah_common_passwords:
  "attack_user_lemah H self common_passwords = Inl TypeError"
  unfolding common_passwords_def by (rule attack_user_lemah_raises)

lemma hash_123456_sha256:
  "hash_password H self (PStr (py ''123456'')) (PStr (py ''sha256'')) PNone =
   Inr (hexdigest (sha256 H [0x31, 0x32, 0x33, 0x34, 0x35, 0x36]))"
  using algo_ids by (simp add: hash_password_def enc_123456)

lemma hash_123456_salted:
  "hash_password H self (PStr (py ''123456'')) (PStr (py ''sha3'')) (PStr (hexlify bs)) =
   Inr (hexdigest (sha3_512 H ([0x31, 0x32, 0x33, 0x34, 0x35, 0x36] @ map of_nat (hexlify bs))))"
proof -
  have "utf8_encode (hexlify bs) = Inr (map of_nat (hexlify bs))"
    using hexlify_ascii by (rule utf8_encode_ascii)
  with enc_123456 have "(if truthy (PStr (hexlify bs))
          then (case py_add (PStr (py ''123456'')) (PStr (hexlify bs)) of
                  Inl e \<Rightarrow> Inl e
                | Inr joined \<Rightarrow> encode joined)
          else encode (PStr (py ''123456''))) =
        Inr ([0x31, 0x32, 0x33, 0x34, 0x35, 0x36] @ map of_nat (hexlify bs))"
    by (rule salted_data)
  then show ?thesis
    using algo_ids unfolding hash_password_def by simp
qed

text \<open>
  Enrolment raises nothing: it stores the two entries and reads sixteen octets from the
  random source.
\<close>

lemma enroll_users_result:
  "enroll_users H rng self =
    (Inr (),
     self\<lparr>user_database := (user_database self)
        (py ''user_lemah'' \<mapsto>
           \<lparr>cred_hash = hexdigest (sha256 H [0x31, 0x32, 0x33, 0x34, 0x35, 0x36]),
            cred_salt = PNone, cred_algo = PStr (py ''sha256'')\<rparr>,
         py ''user_aman'' \<mapsto>
           \<lparr>cred_hash = hexdigest (sha3_512 H ([0x31, 0x32, 0x33, 0x34, 0x35, 0x36]
                            @ map of_nat (hexlify (map rng [0..<16])))),
            cred_salt = PStr (hexlify (map rng [0..<16])),
            cred_algo = PStr (py ''sha3'')\<rparr>)\<rparr>,
     \<lambda>i. rng (16 + i))"
  unfolding enroll_users_def call_hash_password_positional call_generate_salt_default
    hash_123456_sha256
  by (simp add: generate_salt_nonneg hash_123456_salted)

lemma simulate_result:
  "simulate_rainbow_table_attack H rng self =
    (Inl TypeError, fst (snd (enroll_users H rng self)), \<lambda>i. rng (16 + i),
     [Header, TargetLemah])"
  unfolding simulate_rainbow_table_attack_def enroll_users_result
  by (simp add: attack_user_lemah_common_passwords)

lemma upt_16: "[0..<16] = [0, 1, 2, 3, 4, 5, 6, 7, 8, 9, 10, 11, 12, 13, 14, 15::nat]"
  by code_simp

lemma diff_count_le: "length (filter P (zip xs ys)) \<le> length xs"
proof -
  have "length (filter P (zip xs ys)) \<le> length (zip xs ys)" by (rule length_filter_le)
  also have "\<dots> \<le> length xs" by simp
  finally show ?thesis .
qed

lemma diff_count_same: "filter (\<lambda>(a, b). a \<noteq> b) (zip xs xs) = []"
  by (induction xs) simp_all

lemma length_hexdigest_512: "length (hexdigest (w :: 512 word)) = 128"
  by (simp add: length_hexdigest)

lemma enc_Password123:
  "utf8_encode (py ''Password123'') =
     Inr [0x50, 0x61, 0x73, 0x73, 0x77, 0x6F, 0x72, 0x64, 0x31, 0x32, 0x33]"
  by (simp add: py_def utf8_char_def)

lemma enc_password123:
  "utf8_encode (py ''password123'') =
     Inr [0x70, 0x61, 0x73, 0x73, 0x77, 0x6F, 0x72, 0x64, 0x31, 0x32, 0x33]"
  by (simp add: py_def utf8_char_def)

section \<open>Properties of hash_password\<close>

text \<open>
  Claim C1, as amended. \<open>hash_password\<close> has no failure for an unknown algorithm: every
  \<open>algo_type\<close> other than \<open>'blake2'\<close> and \<open>'sha3'\<close>, registered or not, takes the
  \<open>else\<close> branch, and the call returns the SHA-256 digest of the password bytes
  followed by the salt bytes (of the password bytes alone without salt).
\<close>

theorem hash_password_other_algo_is_sha256:
  assumes "algo_type \<noteq> PStr (py ''blake2'')" and "algo_type \<noteq> PStr (py ''sha3'')"
    and "utf8_encode p = Inr pb" and "utf8_encode s = Inr sb"
  shows "hash_password H self (PStr p) algo_type (PStr s) = Inr (hexdigest (sha256 H (pb @ sb)))
     \<and> hash_password H self (PStr p) algo_type PNone = Inr (hexdigest (sha256 H pb))"
  using assms(1,2,3) unfolding hash_password_def salted_data [OF assms(3,4)] by simp

text \<open>The amended claim at the registry key \<open>'SHA-512'\<close>, password \<open>'123456'\<close>, salt \<open>'ab'\<close>.\<close>

theorem hash_password_other_algo_is_sha256_witness:
  "PStr (py ''SHA-512'') \<noteq> PStr (py ''blake2'') \<and> PStr (py ''SHA-512'') \<noteq> PStr (py ''sha3'')
   \<and> utf8_encode (py ''123456'') = Inr [0x31, 0x32, 0x33, 0x34, 0x35, 0x36]
   \<and> utf8_encode (py ''ab'') = Inr [0x61, 0x62]
   \<and> hash_password sample_hashlib (init sample_hashlib)
         (PStr (py ''123456'')) (PStr (py ''SHA-512'')) (PStr (py ''ab''))
       = Inr (hexdigest (sha256 sample_hashlib [0x31, 0x32, 0x33, 0x34, 0x35, 0x36, 0x61, 0x62]))
   \<and> hash_password sample_hashlib (init sample_hashlib)
         (PStr (py ''123456'')) (PStr (py ''SHA-512'')) PNone
       = Inr (hexdigest (sha256 sample_hashlib [0x31, 0x32, 0x33, 0x34, 0x35, 0x36]))"
proof -
  have ne: "PStr (py ''SHA-512'') \<noteq> PStr (py ''blake2'')"
    "PStr (py ''SHA-512'') \<noteq> PStr (py ''sha3'')"
    by (simp_all add: py_def)
  show ?thesis
    using hash_password_other_algo_is_sha256 [OF ne enc_123456 enc_ab,
        of sample_hashlib "init sample_hashlib"] ne enc_123456 enc_ab
    by simp
qed

text \<open>
  Claim C1 as stated fails: \<open>'md5'\<close> is no key of the registry, and
  \<open>hash_password('123456', 'md5', None)\<close> returns a digest, that of SHA-256, where the
  claim has it fail.
\<close>

theorem hash_password_unknown_algo_returns_digest:
  "py ''md5'' \<notin> fst ` set (algorithms (init sample_hashlib))
   \<and> hash_password sample_hashlib (init sample_hashlib)
         (PStr (py ''123456'')) (PStr (py ''md5'')) PNone
       = Inr (hexdigest (sha256 sample_hashlib [0x31, 0x32, 0x33, 0x34, 0x35, 0x36]))"
proof -
  have "py ''md5'' \<notin> fst ` set (algorithms (init sample_hashlib))"
    by (simp add: init_def py_def)
  moreover have "PStr (py ''md5'') \<noteq> PStr (py ''blake2'')"
    "PStr (py ''md5'') \<noteq> PStr (py ''sha3'')"
    by (simp_all add: py_def)
  ultimately show ?thesis
    by (simp add: hash_password_def enc_123456)
qed

text \<open>
  Claim C2, as amended. For a password and a salt that encode to the bytes \<open>pb\<close> and
  \<open>sb\<close>, \<open>hash_password\<close> returns the hexadecimal digest of \<open>pb\<close> followed by
  \<open>sb\<close>, and of \<open>pb\<close> alone without salt, under the function its own chain of
  comparisons selects: BLAKE2b for \<open>'blake2'\<close>, SHA3-512 for \<open>'sha3'\<close>, and SHA-256
  for \<open>'sha256'\<close> and every other identifier, the keys \<open>'SHA-256'\<close>, \<open>'SHA-512'\<close>,
  \<open>'SHA-3-512'\<close> and \<open>'Blake2b'\<close> of the registry among them.
\<close>

theorem hash_password_password_then_salt:
  assumes "utf8_encode p = Inr pb" and "utf8_encode s = Inr sb"
  shows "hash_password H self (PStr p) (PStr (py ''blake2'')) (PStr s)
           = Inr (hexdigest (blake2b H (pb @ sb)))
     \<and> hash_password H self (PStr p) (PStr (py ''sha3'')) (PStr s)
           = Inr (hexdigest (sha3_512 H (pb @ sb)))
     \<and> hash_password H self (PStr p) (PStr (py ''sha256'')) (PStr s)
           = Inr (hexdigest (sha256 H (pb @ sb)))
     \<and> hash_password H self (PStr p) (PStr (py ''blake2'')) PNone
           = Inr (hexdigest (blake2b H pb))
     \<and> hash_password H self (PStr p) (PStr (py ''sha3'')) PNone
           = Inr (hexdigest (sha3_512 H pb))
     \<and> hash_password H self (PStr p) (PStr (py ''sha256'')) PNone
           = Inr (hexdigest (sha256 H pb))
     \<and> (algo_type \<noteq> PStr (py ''blake2'') \<and> algo_type \<noteq> PStr (py ''sha3'') \<longrightarrow>
          hash_password H self (PStr p) algo_type (PStr s)
            = Inr (hexdigest (sha256 H (pb @ sb)))
          \<and> hash_password H self (PStr p) algo_type PNone
            = Inr (hexdigest (sha256 H pb)))
     \<and> (key \<in> PStr ` fst ` set (algorithms (init H)) \<longrightarrow>
          hash_password H self (PStr p) key (PStr s)
            = Inr (hexdigest (sha256 H (pb @ sb)))
          \<and> hash_password H self (PStr p) key PNone
            = Inr (hexdigest (sha256 H pb)))"
proof -
  have known: "hash_password H self (PStr p) (PStr (py ''blake2'')) (PStr s)
           = Inr (hexdigest (blake2b H (pb @ sb)))
     \<and> hash_password H self (PStr p) (PStr (py ''sha3'')) (PStr s)
           = Inr (hexdigest (sha3_512 H (pb @ sb)))
     \<and> hash_password H self (PStr p) (PStr (py ''sha256'')) (PStr s)
           = Inr (hexdigest (sha256 H (pb @ sb)))
     \<and> hash_password H self (PStr p) (PStr (py ''blake2'')) PNone
           = Inr (hexdigest (blake2b H pb))
     \<and> hash_password H self (PStr p) (PStr (py ''sha3'')) PNone
           = Inr (hexdigest (sha3_512 H pb))
     \<and> hash_password H self (PStr p) (PStr (py ''sha256'')) PNone
           = Inr (hexdigest (sha256 H pb))"
    using assms(1) algo_ids unfolding hash_password_def salted_data [OF assms] by simp
  have other: "hash_password H self (PStr p) a (PStr s)
            = Inr (hexdigest (sha256 H (pb @ sb)))
          \<and> hash_password H self (PStr p) a PNone
            = Inr (hexdigest (sha256 H pb))"
    if "a \<noteq> PStr (py ''blake2'')" and "a \<noteq> PStr (py ''sha3'')" for a
    using that assms(1) unfolding hash_password_def salted_data [OF assms] by simp
  have registry: "key \<noteq> PStr (py ''blake2'') \<and> key \<noteq> PStr (py ''sha3'')"
    if "key \<in> PStr ` fst ` set (algorithms (init H))"
    using that by (auto simp: init_def py_def)
  from known other [of algo_type] other [of key] registry show ?thesis by blast
qed

text \<open>
  The amended claim at password \<open>'123456'\<close> and salt \<open>'ab'\<close>, for \<open>'sha3'\<close>, for
  the unregistered \<open>'md5'\<close> and for the registry key \<open>'Blake2b'\<close>.
\<close>

theorem hash_password_password_then_salt_witness:
  "utf8_encode (py ''123456'') = Inr [0x31, 0x32, 0x33, 0x34, 0x35, 0x36]
   \<and> utf8_encode (py ''ab'') = Inr [0x61, 0x62]
   \<and> PStr (py ''md5'') \<noteq> PStr (py ''blake2'') \<and> PStr (py ''md5'') \<noteq> PStr (py ''sha3'')
   \<and> PStr (py ''Blake2b'') \<in> PStr ` fst ` set (algorithms (init sample_hashlib))
   \<and> hash_password sample_hashlib (init sample_hashlib)
         (PStr (py ''123456'')) (PStr (py ''md5'')) (PStr (py ''ab''))
       = Inr (hexdigest (sha256 sample_hashlib [0x31, 0x32, 0x33, 0x34, 0x35, 0x36, 0x61, 0x62]))
   \<and> hash_password sample_hashlib (init sample_hashlib)
         (PStr (py ''123456'')) (PStr (py ''sha3'')) (PStr (py ''ab''))
       = Inr (hexdigest (sha3_512 sample_hashlib [0x31, 0x32, 0x33, 0x34, 0x35, 0x36, 0x61, 0x62]))
   \<and> hash_password sample_hashlib (init sample_hashlib)
         (PStr (py ''123456'')) (PStr (py ''Blake2b'')) (PStr (py ''ab''))
       = Inr (hexdigest (sha256 sample_hashlib [0x31, 0x32, 0x33, 0x34, 0x35, 0x36, 0x61, 0x62]))
   \<and> hash_password sample_hashlib (init sample_hashlib)
         (PStr (py ''123456'')) (PStr (py ''Blake2b'')) PNone
       = Inr (hexdigest (sha256 sample_hashlib [0x31, 0x32, 0x33, 0x34, 0x35, 0x36]))"
proof -
  have key: "PStr (py ''Blake2b'') \<in> PStr ` fst ` set (algorithms (init sample_hashlib))"
    by (simp add: init_def)
  have ne: "PStr (py ''md5'') \<noteq> PStr (py ''blake2'')" "PStr (py ''md5'') \<noteq> PStr (py ''sha3'')"
    by (simp_all add: py_def)
  show ?thesis
    using hash_password_password_then_salt [OF enc_123456 enc_ab,
        of sample_hashlib "init sample_hashlib" "PStr (py ''md5'')" "PStr (py ''Blake2b'')"]
      key ne enc_123456 enc_ab
    by simp
qed

text \<open>
  Claim C2 as stated fails at the registered identifier \<open>'SHA-512'\<close>: the registry
  maps it to SHA-512, \<open>hash_password('123456', 'SHA-512', None)\<close> returns the SHA-256
  digest of the password bytes, and that string of 64 characters is not the SHA-512
  digest of 128.
\<close>

theorem hash_password_registered_key_not_its_digest:
  "map_of (algorithms (init sample_hashlib)) (py ''SHA-512'')
       = Some (\<lambda>data. hexdigest (sha512 sample_hashlib data))
   \<and> hash_password sample_hashlib (init sample_hashlib)
         (PStr (py ''123456'')) (PStr (py ''SHA-512'')) PNone
       = Inr (hexdigest (sha256 sample_hashlib [0x31, 0x32, 0x33, 0x34, 0x35, 0x36]))
   \<and> hexdigest (sha256 sample_hashlib [0x31, 0x32, 0x33, 0x34, 0x35, 0x36])
       \<noteq> hexdigest (sha512 sample_hashlib [0x31, 0x32, 0x33, 0x34, 0x35, 0x36])"
proof -
  have registered: "map_of (algorithms (init sample_hashlib)) (py ''SHA-512'')
       = Some (\<lambda>data. hexdigest (sha512 sample_hashlib data))"
    by (simp add: init_def py_def)
  have "PStr (py ''SHA-512'') \<noteq> PStr (py ''blake2'')"
    "PStr (py ''SHA-512'') \<noteq> PStr (py ''sha3'')"
    by (simp_all add: py_def)
  then have returned: "hash_password sample_hashlib (init sample_hashlib)
         (PStr (py ''123456'')) (PStr (py ''SHA-512'')) PNone
       = Inr (hexdigest (sha256 sample_hashlib [0x31, 0x32, 0x33, 0x34, 0x35, 0x36]))"
    by (simp add: hash_password_def enc_123456)
  have "length (hexdigest (sha256 sample_hashlib [0x31, 0x32, 0x33, 0x34, 0x35, 0x36]))
      \<noteq> length (hexdigest (sha512 sample_hashlib [0x31, 0x32, 0x33, 0x34, 0x35, 0x36]))"
    by (simp add: length_hexdigest)
  then have differ: "hexdigest (sha256 sample_hashlib [0x31, 0x32, 0x33, 0x34, 0x35, 0x36])
       \<noteq> hexdigest (sha512 sample_hashlib [0x31, 0x32, 0x33, 0x34, 0x35, 0x36])"
    by metis
  from registered returned differ show ?thesis by blast
qed

text \<open>
  Claim C9. An empty-string salt is falsy, so \<open>hash_password\<close> treats it exactly as an
  absent salt: for every password and algorithm identifier the two calls give the same
  result.
\<close>

theorem hash_password_empty_salt_is_no_salt:
  "hash_password H self password algo_type (PStr []) =
   hash_password H self password algo_type PNone"
  by (simp add: hash_password_def)

text \<open>
  Claim C10. A salted hash is the unsalted hash of the concatenated string: for every
  password \<open>p\<close>, salt \<open>s\<close> and algorithm identifier,
  \<open>hash_password(p, a, s) = hash_password(p + s, a, None)\<close>. Hence two pairs of
  password and salt with the same concatenation have the same digest.
\<close>

theorem hash_password_salt_is_concatenation:
  "hash_password H self (PStr p) algo_type (PStr s) =
     hash_password H self (PStr (p @ s)) algo_type PNone
   \<and> (p @ s = p' @ s' \<longrightarrow>
        hash_password H self (PStr p) algo_type (PStr s) =
        hash_password H self (PStr p') algo_type (PStr s'))"
proof -
  have unsalted: "hash_password H self (PStr q) algo_type (PStr t) =
      hash_password H self (PStr (q @ t)) algo_type PNone" for q t
    by (simp add: hash_password_def)
  show ?thesis
    using unsalted [of p s] unsalted [of p' s'] by simp
qed

text \<open>Claim C10 at \<open>('ab', 'c')\<close> and \<open>('a', 'bc')\<close>, both concatenating to \<open>'abc'\<close>.\<close>

theorem hash_password_salt_is_concatenation_witness:
  "py ''ab'' @ py ''c'' = py ''a'' @ py ''bc''
   \<and> hash_password sample_hashlib (init sample_hashlib)
         (PStr (py ''ab'')) (PStr (py ''sha3'')) (PStr (py ''c''))
       = hash_password sample_hashlib (init sample_hashlib)
         (PStr (py ''a'')) (PStr (py ''sha3'')) (PStr (py ''bc''))"
proof -
  have eq: "py ''ab'' @ py ''c'' = py ''a'' @ py ''bc''"
    by (simp add: py_def)
  show ?thesis
    using hash_password_salt_is_concatenation [of sample_hashlib "init sample_hashlib"
        "py ''ab''" "PStr (py ''sha3'')" "py ''c''" "py ''a''" "py ''bc''"] eq
    by blast
qed

text \<open>
  Claim C5. \<open>hash_password\<close> is deterministic: its result is fixed by the password, the
  algorithm identifier and the salt, whatever the state of the object it is called on.
  In particular the digest stored for the unsalted user is the same in any two runs of
  the simulation, whatever the databases they start from and the random octets they
  draw.
\<close>

theorem hash_password_deterministic:
  "hash_password H self1 password algo_type salt = hash_password H self2 password algo_type salt
   \<and> map_option cred_hash
        (user_database (fst (snd (simulate_rainbow_table_attack H rng1 self1)))
           (py ''user_lemah''))
     = map_option cred_hash
        (user_database (fst (snd (simulate_rainbow_table_attack H rng2 self2)))
           (py ''user_lemah''))"
proof -
  have ne: "py ''user_aman'' \<noteq> py ''user_lemah''" by (simp add: py_def)
  show ?thesis
    unfolding simulate_result enroll_users_result using ne
    by (simp add: hash_password_def)
qed

section \<open>Properties of generate_salt\<close>

text \<open>
  Claim C6, as amended. For every integer length \<open>n\<close> from 0 to \<open>2^62 - 2\<close>,
  \<open>generate_salt(n)\<close> returns a string of exactly \<open>2 * n\<close> characters, each a
  lower-case hexadecimal digit; called without argument it uses the default 16 and
  returns 32 characters. For every integer length, a string that \<open>generate_salt\<close>
  returns has exactly twice that many characters, and the length is not negative.
\<close>

theorem generate_salt_length:
  assumes "0 \<le> n" and "n \<le> 2 ^ 62 - 2"
  shows "(\<exists>s rng'. generate_salt rng self (PInt n) = (Inr s, rng')
            \<and> int (length s) = 2 * n \<and> set s \<subseteq> set (py ''0123456789abcdef''))
     \<and> (\<exists>s rng'. call_generate_salt rng self [] [] = (Inr s, rng')
            \<and> length s = 32 \<and> set s \<subseteq> set (py ''0123456789abcdef''))
     \<and> (generate_salt rng self (PInt m) = (Inr t, rng1) \<longrightarrow>
          0 \<le> m \<and> int (length t) = 2 * m \<and> set t \<subseteq> set (py ''0123456789abcdef''))"
proof -
  have returned: "0 \<le> m \<and> int (length t) = 2 * m \<and> set t \<subseteq> set (py ''0123456789abcdef'')"
    if "generate_salt rng self (PInt m) = (Inr t, rng1)"
    using generate_salt_returned [OF that] hexlify_chars by (simp add: length_hexlify)
  show ?thesis
    using assms hexlify_chars returned
    by (simp add: call_generate_salt_default generate_salt_nonneg length_hexlify)
qed

text \<open>
  The amended claim at the default length 16, on the random octets \<open>0, 1, 2, \<dots>\<close>.
\<close>

theorem generate_salt_length_witness:
  "(0::int) \<le> 16 \<and> (16::int) \<le> 2 ^ 62 - 2
   \<and> (\<exists>s rng'. generate_salt (\<lambda>i. of_nat i) (init sample_hashlib) (PInt 16) = (Inr s, rng')
         \<and> int (length s) = 2 * 16 \<and> set s \<subseteq> set (py ''0123456789abcdef''))
   \<and> generate_salt (\<lambda>i. of_nat i) (init sample_hashlib) (PInt 16)
       = (Inr (py ''000102030405060708090a0b0c0d0e0f''), \<lambda>i. of_nat (16 + i))
   \<and> int (length (py ''000102030405060708090a0b0c0d0e0f'')) = 2 * 16"
proof -
  have lo: "(0::int) \<le> 16" and hi: "(16::int) \<le> 2 ^ 62 - 2" by simp_all
  have val: "generate_salt (\<lambda>i. of_nat i) (init sample_hashlib) (PInt 16)
       = (Inr (py ''000102030405060708090a0b0c0d0e0f''), \<lambda>i. of_nat (16 + i))"
    by (simp add: generate_salt_nonneg hexlify_def hex_digit_def py_def upt_16)
  note C6 = generate_salt_length [OF lo hi, of "\<lambda>i. of_nat i" "init sample_hashlib" 16
      "py ''000102030405060708090a0b0c0d0e0f''" "\<lambda>i. of_nat (16 + i)"]
  from C6 val have "int (length (py ''000102030405060708090a0b0c0d0e0f'')) = 2 * 16"
    by blast
  with C6 lo hi val show ?thesis by blast
qed

text \<open>
  Claim C6 as stated fails outside that range: \<open>generate_salt(-1)\<close> raises
  \<open>ValueError\<close> and \<open>generate_salt(2^63)\<close> raises \<open>OverflowError\<close>, and neither
  returns a string.
\<close>

theorem generate_salt_bad_length_raises:
  "generate_salt (\<lambda>i. of_nat i) (init sample_hashlib) (PInt (- 1))
       = (Inl ValueError, \<lambda>i. of_nat i)
   \<and> generate_salt (\<lambda>i. of_nat i) (init sample_hashlib) (PInt (2 ^ 63))
       = (Inl OverflowError, \<lambda>i. of_nat i)"
  by (simp add: generate_salt_def token_hex_def token_bytes_def urandom_def
      PY_SSIZE_T_MAX_def)

section \<open>Properties of demonstrate_avalanche_effect\<close>

text \<open>
  Claim C7. For every two texts that encode, \<open>demonstrate_avalanche_effect\<close> computes
  as its percentage 100 times the number of positions at which the two SHA3-512 hex
  digests differ, divided by the number of characters of the first digest; the
  percentage lies between 0 and 100, and it is 0 when the two texts are the same. The
  digests have 128 characters, so the percentage is a multiple of \<open>1/32\<close>.
\<close>

theorem avalanche_percentage_range:
  assumes "utf8_encode text1 = Inr data1" and "utf8_encode text2 = Inr data2"
  shows "\<exists>hash1 hash2 percentage.
      demonstrate_avalanche_effect H self (PStr text1) (PStr text2)
        = Inr (hash1, hash2, percentage)
      \<and> hash1 = hexdigest (sha3_512 H data1) \<and> hash2 = hexdigest (sha3_512 H data2)
      \<and> length hash1 = 128 \<and> length hash2 = 128
      \<and> percentage = 100 * of_nat (length (filter (\<lambda>(a, b). a \<noteq> b) (zip hash1 hash2)))
                       / of_nat (length hash1)
      \<and> percentage = of_nat (25 * length (filter (\<lambda>(a, b). a \<noteq> b) (zip hash1 hash2))) / 32
      \<and> 0 \<le> percentage \<and> percentage \<le> 100
      \<and> (text1 = text2 \<longrightarrow> percentage = 0)"
proof -
  let ?h1 = "hexdigest (sha3_512 H data1)"
  let ?h2 = "hexdigest (sha3_512 H data2)"
  let ?d = "length (filter (\<lambda>(a, b). a \<noteq> b) (zip ?h1 ?h2))"
  let ?p = "(of_nat ?d / of_nat (length ?h1)) * 100 :: rat"
  have len: "length ?h1 = 128" "length ?h2 = 128"
    by (rule length_hexdigest_512)+
  from len have ne: "?h1 \<noteq> []" by auto
  have run: "demonstrate_avalanche_effect H self (PStr text1) (PStr text2) = Inr (?h1, ?h2, ?p)"
    using assms ne by (simp add: demonstrate_avalanche_effect_def Let_def)
  have "?d \<le> 128" using diff_count_le [of _ ?h1 ?h2] len by simp
  then have hi: "?p \<le> 100" using len by simp
  have lo: "0 \<le> ?p" by simp
  have dyadic: "?p = of_nat (25 * ?d) / 32" using len by simp
  have same: "?p = 0" if "text1 = text2"
  proof -
    from that assms have "data1 = data2" by simp
    then show ?thesis by (simp add: diff_count_same)
  qed
  show ?thesis using run hi lo same dyadic len by simp
qed

text \<open>
  Claim C7 at the function's default texts \<open>'Password123'\<close> and \<open>'password123'\<close>, and
  at \<open>'Password123'\<close> against itself.
\<close>

theorem avalanche_percentage_range_witness:
  "utf8_encode (py ''Password123'')
     = Inr [0x50, 0x61, 0x73, 0x73, 0x77, 0x6F, 0x72, 0x64, 0x31, 0x32, 0x33]
   \<and> utf8_encode (py ''password123'')
     = Inr [0x70, 0x61, 0x73, 0x73, 0x77, 0x6F, 0x72, 0x64, 0x31, 0x32, 0x33]
   \<and> (\<exists>hash1 hash2 percentage.
        demonstrate_avalanche_effect sample_hashlib (init sample_hashlib)
          (PStr (py ''Password123'')) (PStr (py ''password123''))
          = Inr (hash1, hash2, percentage)
        \<and> 0 \<le> percentage \<and> percentage \<le> 100)
   \<and> (\<exists>hash1 hash2.
        demonstrate_avalanche_effect sample_hashlib (init sample_hashlib)
          (PStr (py ''Password123'')) (PStr (py ''Password123''))
          = Inr (hash1, hash2, 0))"
proof -
  obtain h1 h2 p where differ:
    "demonstrate_avalanche_effect sample_hashlib (init sample_hashlib)
       (PStr (py ''Password123'')) (PStr (py ''password123'')) = Inr (h1, h2, p)"
    "0 \<le> p" "p \<le> 100"
    using avalanche_percentage_range [OF enc_Password123 enc_password123,
        of sample_hashlib "init sample_hashlib"]
    by blast
  obtain k1 k2 q where same:
    "demonstrate_avalanche_effect sample_hashlib (init sample_hashlib)
       (PStr (py ''Password123'')) (PStr (py ''Password123'')) = Inr (k1, k2, q)"
    "py ''Password123'' = py ''Password123'' \<longrightarrow> q = 0"
    using avalanche_percentage_range [OF enc_Password123 enc_Password123,
        of sample_hashlib "init sample_hashlib"]
    by blast
  from same have "demonstrate_avalanche_effect sample_hashlib (init sample_hashlib)
       (PStr (py ''Password123'')) (PStr (py ''Password123'')) = Inr (k1, k2, 0)"
    by simp
  with differ enc_Password123 enc_password123 show ?thesis by blast
qed

section \<open>Properties of simulate_rainbow_table_attack\<close>

text \<open>
  Claim C3, on the code. Neither attack loop hashes a candidate: on every non-empty
  dictionary the first iteration raises \<open>TypeError\<close>, because the call passes the
  keyword \<open>algo\<close> and the parameter is named \<open>algo_type\<close> (the second loop raises
  \<open>KeyError\<close> instead when the salted user is not in the database). No match and no
  failure is reported.
\<close>

theorem attack_loops_raise_TypeError:
  "attack_user_lemah H self (pwd # rest) = Inl TypeError
   \<and> attack_user_aman H self (pwd # rest) =
       (case user_database self (py ''user_aman'') of
          None \<Rightarrow> Inl KeyError
        | Some entry \<Rightarrow> Inl TypeError)"
  by (simp only: attack_user_lemah_raises attack_user_aman_raises)

text \<open>
  Claim C4, on the code. Whatever the digest functions, the random octets and the
  database it starts from, \<open>simulate_rainbow_table_attack\<close> raises \<open>TypeError\<close> in the
  first iteration of the loop on the unsalted user. It has then printed its heading and
  the target line of the unsalted user only: the run on the salted user is never
  started, and neither its match branch nor its not-found branch is reached.
\<close>

theorem simulate_rainbow_table_attack_raises:
  "fst (simulate_rainbow_table_attack H rng self) = Inl TypeError
   \<and> snd (snd (snd (simulate_rainbow_table_attack H rng self))) = [Header, TargetLemah]"
  by (simp add: simulate_result)

text \<open>
  Claim C8. The simulation leaves the database with the two entries it enrols, and
  each satisfies the store invariant: hashing the enrolment password \<open>'123456'\<close> with
  the entry's stored algorithm and stored salt gives the entry's stored digest. The
  unsalted entry stores no salt, the salted entry a salt of 32 characters.
\<close>

theorem enrolled_credentials_invariant:
  "\<exists>lemah aman.
     user_database (fst (snd (simulate_rainbow_table_attack H rng self))) =
       (user_database self)(py ''user_lemah'' \<mapsto> lemah, py ''user_aman'' \<mapsto> aman)
     \<and> hash_password H (fst (snd (simulate_rainbow_table_attack H rng self)))
          (PStr (py ''123456'')) (cred_algo lemah) (cred_salt lemah) = Inr (cred_hash lemah)
     \<and> cred_salt lemah = PNone
     \<and> hash_password H (fst (snd (simulate_rainbow_table_attack H rng self)))
          (PStr (py ''123456'')) (cred_algo aman) (cred_salt aman) = Inr (cred_hash aman)
     \<and> (\<exists>salt. cred_salt aman = PStr salt \<and> length salt = 32)"
proof -
  let ?lemah = "\<lparr>cred_hash = hexdigest (sha256 H [0x31, 0x32, 0x33, 0x34, 0x35, 0x36]),
      cred_salt = PNone, cred_algo = PStr (py ''sha256'')\<rparr>"
  let ?aman = "\<lparr>cred_hash = hexdigest (sha3_512 H ([0x31, 0x32, 0x33, 0x34, 0x35, 0x36]
                            @ map of_nat (hexlify (map rng [0..<16])))),
      cred_salt = PStr (hexlify (map rng [0..<16])), cred_algo = PStr (py ''sha3'')\<rparr>"
  show ?thesis
    unfolding simulate_result enroll_users_result
    by (rule exI [of _ ?lemah], rule exI [of _ ?aman])
      (simp add: hash_123456_sha256 hash_123456_salted length_hexlify)
qed

end
